theory Spec2Isabelle
  imports Main
begin

section \<open>Values shared by the user service and the EPM service\<close>

text \<open>
  A Go \<open>error\<close> is kept as the text its \<open>Error()\<close> method returns; a function that
  returns \<open>error\<close> returns \<open>error option\<close>, with \<open>None\<close> for \<open>nil\<close>. The
  \<open>context.Context\<close> that the methods of the services and repositories take is passed on
  to the DynamoDB client as it is and is left out there; what a cancelled or timed-out
  context does to a request is one of the faults the store can answer with (see
  \<open>Faults\<close> below). The producer does not pass a context on: it hands \<open>nil\<close> to the
  Kafka writer, and that is kept.
\<close>

datatype error = Err (Error: string)

text \<open>
  A call either returns or panics; a panic carries its message and unwinds through the
  callers, none of which recovers. A \<open>context.Context\<close> that is handed to a library is
  \<open>Some\<close> context or \<open>nil\<close>.
\<close>

datatype 'a result = Returns 'a | Panics string

datatype Context = Background

text \<open>\<open>internal/models/user.go\<close>. A slice can be \<open>nil\<close>: \<open>None\<close>.\<close>

record User =
  ID :: string
  Name :: string
  Email :: string
  Policies :: "string list option"

text \<open>
  \<open>encoding/json\<close>: a JSON document is kept as its tree, the members of an object in the
  order in which they are written. \<open>json.Marshal\<close> of a \<open>User\<close> writes every field under
  its \<open>json\<close> tag (no tag says \<open>omitempty\<close>), a \<open>nil\<close> slice as \<open>null\<close>, and returns
  no error. A string of the tree is the Go string: how its bytes are escaped in the text,
  and that \<open>encoding/json\<close> writes U+FFFD for bytes that are not valid UTF-8, is not
  modelled.
\<close>

datatype json = JNull | JString string | JArray "json list" | JObject "(string \<times> json) list"

definition json_Marshal :: "User \<Rightarrow> json \<times> error option" where
  "json_Marshal user =
     (JObject
        [(''id'', JString (ID user)),
         (''name'', JString (Name user)),
         (''email'', JString (Email user)),
         (''policies'', (case Policies user of None \<Rightarrow> JNull | Some ps \<Rightarrow> JArray (map JString ps)))],
      None)"

section \<open>The Kafka producer (\<open>internal/kafka/producer.go\<close>)\<close>

text \<open>
  \<open>kafka.Message\<close> with the two fields the producer sets. The producer's state is what
  can be seen of its \<open>kafka.Writer\<close> from outside: the addresses of the brokers
  (\<open>Addr\<close>, none when the list is empty), the topic, and every message handed to
  \<open>WriteMessages\<close> so far (\<open>written\<close>, oldest first, whatever became of the call).
  \<open>printed\<close> holds the lines \<open>log.Printf\<close> wrote.

  The writer and the brokers are not part of the program. Two things about them are
  inputs: which messages are larger than the writer's batch size (\<open>oversized\<close>; the
  bytes of a message are not modelled), and what the brokers will answer to the coming
  requests (\<open>outcomes\<close>, one per request, \<open>nil\<close> when the list is used up).
  \<open>NewKafkaProducer\<close> takes both beside the brokers' addresses.
\<close>

record Message =
  Key :: string
  Value :: json

record KafkaProducer =
  Addr :: "string list"
  Topic :: string
  written :: "Message list"
  oversized :: "Message \<Rightarrow> bool"
  outcomes :: "error option list"
  printed :: "string list"

definition NewKafkaProducer ::
  "string list \<Rightarrow> (Message \<Rightarrow> bool) \<Rightarrow> error option list \<Rightarrow> KafkaProducer" where
  "NewKafkaProducer brokers big rs =
     \<lparr>Addr = brokers, Topic = ''user-events'', written = [], oversized = big, outcomes = rs,
      printed = []\<rparr>"

text \<open>
  \<open>Writer.WriteMessages\<close> of kafka-go, in the order of its checks: without an address
  it returns an error; a message over the batch size is refused with an error; then it
  asks for the topic's partitions, which reads the context: on a \<open>nil\<close> context that is
  a nil dereference, and the call panics. With a context the brokers' answer is returned.
\<close>

definition nil_address :: error where
  "nil_address = Err ''kafka.Writer.WriteMessages: cannot create a kafka writer with a nil address''"

definition MessageTooLargeError :: error where
  "MessageTooLargeError = Err ''Message Size Too Large''"

definition nil_dereference :: string where
  "nil_dereference = ''runtime error: invalid memory address or nil pointer dereference''"

definition WriteMessages ::
  "Context option \<Rightarrow> Message \<Rightarrow> KafkaProducer \<Rightarrow> error option result \<times> KafkaProducer" where
  "WriteMessages ctx m p =
     (let p' = p\<lparr>written := written p @ [m]\<rparr> in
      if Addr p = [] then (Returns (Some nil_address), p')
      else if oversized p m then (Returns (Some MessageTooLargeError), p')
      else
        (case ctx of
           None \<Rightarrow> (Panics nil_dereference, p')
         | Some c \<Rightarrow>
             (case outcomes p of
                [] \<Rightarrow> (Returns None, p')
              | r # rs \<Rightarrow> (Returns r, p'\<lparr>outcomes := rs\<rparr>))))"

text \<open>\<open>PublishEvent\<close> calls \<open>p.Writer.WriteMessages(nil, ...)\<close>.\<close>

definition PublishEvent ::
  "string \<Rightarrow> json \<Rightarrow> KafkaProducer \<Rightarrow> error option result \<times> KafkaProducer" where
  "PublishEvent key v p =
     (let (r, p') = WriteMessages None \<lparr>Key = key, Value = v\<rparr> p in
      case r of
        Panics x \<Rightarrow> (Panics x, p')
      | Returns err \<Rightarrow>
          (case err of
             None \<Rightarrow> (Returns None, p')
           | Some e \<Rightarrow>
               (Returns (Some e),
                p'\<lparr>printed := printed p' @ [''Failed to publish message: '' @ Error e]\<rparr>)))"

section \<open>The user service (\<open>internal/service/user_service.go\<close>)\<close>

text \<open>
  \<open>repository.UserRepository\<close> is an interface: any implementation can stand behind the
  service (the unit test puts a mock there). An implementation is a record of four
  functions over a state \<open>'db\<close> of its own, each returning its result and the new state.
  \<open>GetUser\<close> returns a pointer and an error: \<open>User option \<times> error option\<close>.
\<close>

record 'db UserRepository =
  repo_CreateUser :: "User \<Rightarrow> 'db \<Rightarrow> error option \<times> 'db"
  repo_GetUser :: "string \<Rightarrow> 'db \<Rightarrow> (User option \<times> error option) \<times> 'db"
  repo_UpdateUser :: "User \<Rightarrow> 'db \<Rightarrow> error option \<times> 'db"
  repo_DeleteUser :: "string \<Rightarrow> 'db \<Rightarrow> error option \<times> 'db"

text \<open>
  The service holds the repository and a pointer to the producer; its methods run on the
  pair of the repository's state and the producer's state. A method that publishes
  returns an error or panics; what it did to the two states before a panic stays done.
\<close>

definition publishEvent :: "string \<Rightarrow> User \<Rightarrow> KafkaProducer \<Rightarrow> unit result \<times> KafkaProducer" where
  "publishEvent eventType user p =
     (let (msg, _) = json_Marshal user;
          (r, p') = PublishEvent eventType msg p
      in case r of
           Panics x \<Rightarrow> (Panics x, p')
         | Returns _ \<Rightarrow> (Returns (), p'))"

definition UserService_CreateUser ::
  "'db UserRepository \<Rightarrow> User \<Rightarrow> 'db \<times> KafkaProducer \<Rightarrow>
     error option result \<times> ('db \<times> KafkaProducer)" where
  "UserService_CreateUser s user st =
     (let (db, p) = st;
          (err, db') = repo_CreateUser s user db
      in if err = None
         then (let (r, p') = publishEvent ''create_user'' user p in
               case r of
                 Panics x \<Rightarrow> (Panics x, (db', p'))
               | Returns _ \<Rightarrow> (Returns err, (db', p')))
         else (Returns err, (db', p)))"

definition UserService_GetUser ::
  "'db UserRepository \<Rightarrow> string \<Rightarrow> 'db \<times> KafkaProducer \<Rightarrow>
     (User option \<times> error option) \<times> ('db \<times> KafkaProducer)" where
  "UserService_GetUser s id' st =
     (let (db, p) = st;
          (res, db') = repo_GetUser s id' db
      in (res, (db', p)))"

definition UserService_UpdateUser ::
  "'db UserRepository \<Rightarrow> User \<Rightarrow> 'db \<times> KafkaProducer \<Rightarrow>
     error option result \<times> ('db \<times> KafkaProducer)" where
  "UserService_UpdateUser s user st =
     (let (db, p) = st;
          (err, db') = repo_UpdateUser s user db
      in if err = None
         then (let (r, p') = publishEvent ''update_user'' user p in
               case r of
                 Panics x \<Rightarrow> (Panics x, (db', p'))
               | Returns _ \<Rightarrow> (Returns err, (db', p')))
         else (Returns err, (db', p)))"

definition UserService_DeleteUser ::
  "'db UserRepository \<Rightarrow> string \<Rightarrow> 'db \<times> KafkaProducer \<Rightarrow>
     error option result \<times> ('db \<times> KafkaProducer)" where
  "UserService_DeleteUser s id' st =
     (let (db, p) = st;
          (err, db') = repo_DeleteUser s id' db
      in if err = None
         then (let (r, p') =
                     publishEvent ''delete_user''
                       \<lparr>ID = id', Name = [], Email = [], Policies = None\<rparr> p in
               case r of
                 Panics x \<Rightarrow> (Panics x, (db', p'))
               | Returns _ \<Rightarrow> (Returns err, (db', p')))
         else (Returns err, (db', p)))"

section \<open>DynamoDB and the user repository (\<open>internal/repository/dynamo_repository.go\<close>)\<close>

text \<open>
  \<open>dynamodb.AttributeValue\<close> with the three shapes a \<open>User\<close> is marshalled to. An item
  and a request's key are attribute maps, written as the lists of their entries and read
  with \<open>map_of\<close>.

  The database is not part of the program. What the repository can see of it: the
  tables by name, each with the name of its hash key attribute (fixed when the table is
  created, which no file of the repository does for \<open>Users\<close>) and its items by key
  value; and \<open>Faults\<close>, the answers of the coming requests that fail before they reach a
  table (no connection, throttling, a cancelled context), one per request, none when the
  list is used up.
\<close>

datatype AttributeValue = AV_S string | AV_NULL | AV_L "AttributeValue list"

type_synonym Item = "(string \<times> AttributeValue) list"

record Table =
  KeyName :: string
  Items :: "string \<rightharpoonup> Item"

record DynamoDB =
  Tables :: "string \<rightharpoonup> Table"
  Faults :: "error option list"

definition ValidationException :: error where
  "ValidationException = Err ''ValidationException''"

definition ResourceNotFoundException :: error where
  "ResourceNotFoundException = Err ''ResourceNotFoundException''"

definition next_fault :: "DynamoDB \<Rightarrow> error option \<times> DynamoDB" where
  "next_fault db = (case Faults db of [] \<Rightarrow> (None, db) | f # fs \<Rightarrow> (f, db\<lparr>Faults := fs\<rparr>))"

text \<open>
  DynamoDB accepts an item only if it holds the table's key attribute as a non-empty
  string, and a key only if it names the table's key attribute and nothing else, with a
  non-empty string; anything else is answered with a \<open>ValidationException\<close>.
\<close>

definition item_key :: "Table \<Rightarrow> Item \<Rightarrow> string option" where
  "item_key t item =
     (case map_of item (KeyName t) of
        Some (AV_S k) \<Rightarrow> (if k = [] then None else Some k)
      | _ \<Rightarrow> None)"

definition request_key :: "Table \<Rightarrow> Item \<Rightarrow> string option" where
  "request_key t key =
     (case key of
        [(a, AV_S k)] \<Rightarrow> (if a = KeyName t \<and> k \<noteq> [] then Some k else None)
      | _ \<Rightarrow> None)"

definition PutItemWithContext :: "string \<Rightarrow> Item \<Rightarrow> DynamoDB \<Rightarrow> error option \<times> DynamoDB" where
  "PutItemWithContext tableName item db =
     (let (fault, db') = next_fault db in
      case fault of
        Some e \<Rightarrow> (Some e, db')
      | None \<Rightarrow>
          (case Tables db' tableName of
             None \<Rightarrow> (Some ResourceNotFoundException, db')
           | Some t \<Rightarrow>
               (case item_key t item of
                  None \<Rightarrow> (Some ValidationException, db')
                | Some k \<Rightarrow>
                    (None, db'\<lparr>Tables := (Tables db')(tableName \<mapsto> t\<lparr>Items := (Items t)(k \<mapsto> item)\<rparr>)\<rparr>))))"

definition GetItemWithContext ::
  "string \<Rightarrow> Item \<Rightarrow> DynamoDB \<Rightarrow> (Item option \<times> error option) \<times> DynamoDB" where
  "GetItemWithContext tableName key db =
     (let (fault, db') = next_fault db in
      case fault of
        Some e \<Rightarrow> ((None, Some e), db')
      | None \<Rightarrow>
          (case Tables db' tableName of
             None \<Rightarrow> ((None, Some ResourceNotFoundException), db')
           | Some t \<Rightarrow>
               (case request_key t key of
                  None \<Rightarrow> ((None, Some ValidationException), db')
                | Some k \<Rightarrow> ((Items t k, None), db'))))"

definition DeleteItemWithContext :: "string \<Rightarrow> Item \<Rightarrow> DynamoDB \<Rightarrow> error option \<times> DynamoDB" where
  "DeleteItemWithContext tableName key db =
     (let (fault, db') = next_fault db in
      case fault of
        Some e \<Rightarrow> (Some e, db')
      | None \<Rightarrow>
          (case Tables db' tableName of
             None \<Rightarrow> (Some ResourceNotFoundException, db')
           | Some t \<Rightarrow>
               (case request_key t key of
                  None \<Rightarrow> (Some ValidationException, db')
                | Some k \<Rightarrow>
                    (None, db'\<lparr>Tables := (Tables db')(tableName \<mapsto> t\<lparr>Items := (Items t)(k := None)\<rparr>)\<rparr>))))"

text \<open>
  \<open>dynamodbattribute.MarshalMap\<close> names each attribute by the field's \<open>dynamodbav\<close> tag
  and, where there is none, by its \<open>json\<close> tag: a \<open>User\<close> becomes an item with the
  attributes \<open>id\<close>, \<open>name\<close>, \<open>email\<close> and \<open>policies\<close>. With the encoder's defaults an
  empty string and an empty or \<open>nil\<close> slice are written as \<open>NULL\<close>. It cannot fail on a
  \<open>User\<close>.
\<close>

definition encodeString :: "string \<Rightarrow> AttributeValue" where
  "encodeString s = (if s = [] then AV_NULL else AV_S s)"

definition encodeSlice :: "string list option \<Rightarrow> AttributeValue" where
  "encodeSlice xs =
     (case xs of
        None \<Rightarrow> AV_NULL
      | Some ys \<Rightarrow> (if ys = [] then AV_NULL else AV_L (map encodeString ys)))"

definition MarshalMap :: "User \<Rightarrow> Item \<times> error option" where
  "MarshalMap user =
     ([(''id'', encodeString (ID user)),
       (''name'', encodeString (Name user)),
       (''email'', encodeString (Email user)),
       (''policies'', encodeSlice (Policies user))],
      None)"

definition DynamoUserRepository_CreateUser :: "User \<Rightarrow> DynamoDB \<Rightarrow> error option \<times> DynamoDB" where
  "DynamoUserRepository_CreateUser user db =
     (let (av, err) = MarshalMap user in
      case err of
        Some e \<Rightarrow> (Some e, db)
      | None \<Rightarrow> PutItemWithContext ''Users'' av db)"

text \<open>
  \<open>dynamodbattribute.UnmarshalMap\<close> is library code: it is the parameter
  \<open>UnmarshalMap\<close> of \<open>GetUser\<close>, a function that returns the decoded user and an
  error. What is proved holds for every such function.
\<close>

definition DynamoUserRepository_GetUser ::
  "(Item \<Rightarrow> User \<times> error option) \<Rightarrow> string \<Rightarrow> DynamoDB \<Rightarrow>
     (User option \<times> error option) \<times> DynamoDB" where
  "DynamoUserRepository_GetUser UnmarshalMap id' db =
     (let ((result, err), db') = GetItemWithContext ''Users'' [(''ID'', AV_S id')] db in
      case err of
        Some e \<Rightarrow> ((None, Some e), db')
      | None \<Rightarrow>
          (case result of
             None \<Rightarrow> ((None, Some (Err ''user not found'')), db')
           | Some item \<Rightarrow> (let (user, err') = UnmarshalMap item in ((Some user, err'), db'))))"

definition DynamoUserRepository_UpdateUser :: "User \<Rightarrow> DynamoDB \<Rightarrow> error option \<times> DynamoDB" where
  "DynamoUserRepository_UpdateUser user db = DynamoUserRepository_CreateUser user db"

definition DynamoUserRepository_DeleteUser :: "string \<Rightarrow> DynamoDB \<Rightarrow> error option \<times> DynamoDB" where
  "DynamoUserRepository_DeleteUser id' db =
     DeleteItemWithContext ''Users'' [(''ID'', AV_S id')] db"

definition DynamoUserRepository :: "(Item \<Rightarrow> User \<times> error option) \<Rightarrow> DynamoDB UserRepository" where
  "DynamoUserRepository UnmarshalMap =
     \<lparr>repo_CreateUser = DynamoUserRepository_CreateUser,
      repo_GetUser = DynamoUserRepository_GetUser UnmarshalMap,
      repo_UpdateUser = DynamoUserRepository_UpdateUser,
      repo_DeleteUser = DynamoUserRepository_DeleteUser\<rparr>"

section \<open>The EPM service (\<open>ReadmeEPM_microservice.md\<close>)\<close>

text \<open>
  \<open>internal/models/epm.go\<close>. (The fields are prefixed: \<open>ID\<close> and \<open>Name\<close> are taken
  by \<open>User\<close>.)
\<close>

record EPMPolicy =
  policy_ID :: string
  policy_Name :: string
  policy_Rules :: string

record EPMAudit =
  audit_ID :: string
  audit_PolicyID :: string
  audit_Timestamp :: string
  audit_Action :: string
  audit_Status :: string

definition json_Marshal_policy :: "EPMPolicy \<Rightarrow> json \<times> error option" where
  "json_Marshal_policy policy =
     (JObject
        [(''id'', JString (policy_ID policy)),
         (''name'', JString (policy_Name policy)),
         (''rules'', JString (policy_Rules policy))],
      None)"

text \<open>
  \<open>repository.DynamoDBRepository\<close>, the interface the EPM service is written against,
  as a record of functions over the implementation's state.
\<close>

record 'db DynamoDBRepository =
  repo_SavePolicy :: "string \<Rightarrow> EPMPolicy \<Rightarrow> 'db \<Rightarrow> error option \<times> 'db"
  repo_GetPolicy :: "string \<Rightarrow> string \<Rightarrow> 'db \<Rightarrow> (EPMPolicy option \<times> error option) \<times> 'db"
  repo_SaveAudit :: "string \<Rightarrow> EPMAudit \<Rightarrow> 'db \<Rightarrow> error option \<times> 'db"
  repo_GetAudit :: "string \<Rightarrow> string \<Rightarrow> 'db \<Rightarrow> (EPMAudit option \<times> error option) \<times> 'db"

text \<open>
  \<open>internal/service/epm_service.go\<close>. The EPM producer is the same code as the user
  service's producer, on the topic \<open>epm-events\<close>.
\<close>

definition EPM_NewKafkaProducer ::
  "string list \<Rightarrow> (Message \<Rightarrow> bool) \<Rightarrow> error option list \<Rightarrow> KafkaProducer" where
  "EPM_NewKafkaProducer brokers big rs =
     \<lparr>Addr = brokers, Topic = ''epm-events'', written = [], oversized = big, outcomes = rs,
      printed = []\<rparr>"

definition EPMService_publishEvent ::
  "string \<Rightarrow> EPMPolicy \<Rightarrow> KafkaProducer \<Rightarrow> unit result \<times> KafkaProducer" where
  "EPMService_publishEvent eventType policy p =
     (let (msg, _) = json_Marshal_policy policy;
          (r, p') = PublishEvent eventType msg p
      in case r of
           Panics x \<Rightarrow> (Panics x, p')
         | Returns err \<Rightarrow>
             (case err of
                None \<Rightarrow> (Returns (), p')
              | Some e \<Rightarrow>
                  (Returns (),
                   p'\<lparr>printed := printed p' @ [''Failed to publish Kafka event: '' @ Error e]\<rparr>)))"

definition EPMService_CreatePolicy ::
  "'db DynamoDBRepository \<Rightarrow> string \<Rightarrow> EPMPolicy \<Rightarrow> 'db \<times> KafkaProducer \<Rightarrow>
     error option result \<times> ('db \<times> KafkaProducer)" where
  "EPMService_CreatePolicy s tableName policy st =
     (let (db, p) = st;
          (err, db') = repo_SavePolicy s tableName policy db
      in if err = None
         then (let (r, p') = EPMService_publishEvent ''create_policy'' policy p in
               case r of
                 Panics x \<Rightarrow> (Panics x, (db', p'))
               | Returns _ \<Rightarrow> (Returns err, (db', p')))
         else (Returns err, (db', p)))"

definition EPMService_GetPolicy ::
  "'db DynamoDBRepository \<Rightarrow> string \<Rightarrow> string \<Rightarrow> 'db \<times> KafkaProducer \<Rightarrow>
     (EPMPolicy option \<times> error option) \<times> ('db \<times> KafkaProducer)" where
  "EPMService_GetPolicy s tableName policyID st =
     (let (db, p) = st;
          (res, db') = repo_GetPolicy s tableName policyID db
      in (res, (db', p)))"

definition EPMService_LogAudit ::
  "'db DynamoDBRepository \<Rightarrow> string \<Rightarrow> EPMAudit \<Rightarrow> 'db \<times> KafkaProducer \<Rightarrow>
     error option \<times> ('db \<times> KafkaProducer)" where
  "EPMService_LogAudit s tableName audit st =
     (let (db, p) = st;
          (err, db') = repo_SaveAudit s tableName audit db
      in (err, (db', p)))"

text \<open>
  \<open>internal/repository/dynamodb_repository.go\<close>: the implementation on DynamoDB. Each
  error of the client is wrapped by \<open>fmt.Errorf\<close> with \<open>%w\<close>: the text is the prefix
  followed by the error's text. The two decoders are parameters, as for the user
  repository.
\<close>

definition MarshalMap_policy :: "EPMPolicy \<Rightarrow> Item \<times> error option" where
  "MarshalMap_policy policy =
     ([(''id'', encodeString (policy_ID policy)),
       (''name'', encodeString (policy_Name policy)),
       (''rules'', encodeString (policy_Rules policy))],
      None)"

definition MarshalMap_audit :: "EPMAudit \<Rightarrow> Item \<times> error option" where
  "MarshalMap_audit audit =
     ([(''id'', encodeString (audit_ID audit)),
       (''policy_id'', encodeString (audit_PolicyID audit)),
       (''timestamp'', encodeString (audit_Timestamp audit)),
       (''action'', encodeString (audit_Action audit)),
       (''status'', encodeString (audit_Status audit))],
      None)"

definition DynamoDBRepo_SavePolicy :: "string \<Rightarrow> EPMPolicy \<Rightarrow> DynamoDB \<Rightarrow> error option \<times> DynamoDB" where
  "DynamoDBRepo_SavePolicy tableName policy db =
     (let (item, err) = MarshalMap_policy policy in
      case err of
        Some e \<Rightarrow> (Some (Err (''failed to marshal policy: '' @ Error e)), db)
      | None \<Rightarrow>
          (let (err', db') = PutItemWithContext tableName item db in
           case err' of
             Some e \<Rightarrow> (Some (Err (''failed to save policy to DynamoDB: '' @ Error e)), db')
           | None \<Rightarrow> (None, db')))"

definition DynamoDBRepo_GetPolicy ::
  "(Item \<Rightarrow> EPMPolicy \<times> error option) \<Rightarrow> string \<Rightarrow> string \<Rightarrow> DynamoDB \<Rightarrow>
     (EPMPolicy option \<times> error option) \<times> DynamoDB" where
  "DynamoDBRepo_GetPolicy UnmarshalMap tableName policyID db =
     (let ((result, err), db') = GetItemWithContext tableName [(''id'', AV_S policyID)] db in
      case err of
        Some e \<Rightarrow> ((None, Some (Err (''failed to get policy from DynamoDB: '' @ Error e))), db')
      | None \<Rightarrow>
          (case result of
             None \<Rightarrow> ((None, Some (Err (''policy with ID '' @ policyID @ '' not found''))), db')
           | Some item \<Rightarrow>
               (let (policy, err') = UnmarshalMap item in
                case err' of
                  Some e \<Rightarrow> ((None, Some (Err (''failed to unmarshal policy: '' @ Error e))), db')
                | None \<Rightarrow> ((Some policy, None), db'))))"

definition DynamoDBRepo_SaveAudit :: "string \<Rightarrow> EPMAudit \<Rightarrow> DynamoDB \<Rightarrow> error option \<times> DynamoDB" where
  "DynamoDBRepo_SaveAudit tableName audit db =
     (let (item, err) = MarshalMap_audit audit in
      case err of
        Some e \<Rightarrow> (Some (Err (''failed to marshal audit: '' @ Error e)), db)
      | None \<Rightarrow>
          (let (err', db') = PutItemWithContext tableName item db in
           case err' of
             Some e \<Rightarrow> (Some (Err (''failed to save audit to DynamoDB: '' @ Error e)), db')
           | None \<Rightarrow> (None, db')))"

definition DynamoDBRepo_GetAudit ::
  "(Item \<Rightarrow> EPMAudit \<times> error option) \<Rightarrow> string \<Rightarrow> string \<Rightarrow> DynamoDB \<Rightarrow>
     (EPMAudit option \<times> error option) \<times> DynamoDB" where
  "DynamoDBRepo_GetAudit UnmarshalMap tableName auditID db =
     (let ((result, err), db') = GetItemWithContext tableName [(''id'', AV_S auditID)] db in
      case err of
        Some e \<Rightarrow> ((None, Some (Err (''failed to get audit from DynamoDB: '' @ Error e))), db')
      | None \<Rightarrow>
          (case result of
             None \<Rightarrow> ((None, Some (Err (''audit with ID '' @ auditID @ '' not found''))), db')
           | Some item \<Rightarrow>
               (let (audit, err') = UnmarshalMap item in
                case err' of
                  Some e \<Rightarrow> ((None, Some (Err (''failed to unmarshal audit: '' @ Error e))), db')
                | None \<Rightarrow> ((Some audit, None), db'))))"

definition DynamoDBRepo ::
  "(Item \<Rightarrow> EPMPolicy \<times> error option) \<Rightarrow> (Item \<Rightarrow> EPMAudit \<times> error option) \<Rightarrow>
     DynamoDB DynamoDBRepository" where
  "DynamoDBRepo decodePolicy decodeAudit =
     \<lparr>repo_SavePolicy = DynamoDBRepo_SavePolicy,
      repo_GetPolicy = DynamoDBRepo_GetPolicy decodePolicy,
      repo_SaveAudit = DynamoDBRepo_SaveAudit,
      repo_GetAudit = DynamoDBRepo_GetAudit decodeAudit\<rparr>"

section \<open>What the specification says of an event\<close>

text \<open>
  Two readings of a JSON document, used to compare what the service writes with the
  specification's words: the member of an object under a name, and the specification's
  event wire shape, an object of exactly the members \<open>event_type\<close> (one of
  \<open>create\<close>, \<open>update\<close>, \<open>delete\<close>), \<open>subject_id\<close> (a string) and \<open>payload\<close>.
\<close>

definition json_member :: "string \<Rightarrow> json \<Rightarrow> json option" where
  "json_member name j = (case j of JObject ms \<Rightarrow> map_of ms name | _ \<Rightarrow> None)"

definition spec_event_wire_shape :: "json \<Rightarrow> bool" where
  "spec_event_wire_shape j =
     (case j of
        JObject ms \<Rightarrow>
          length ms = 3 \<and>
          (case (map_of ms ''event_type'', map_of ms ''subject_id'', map_of ms ''payload'') of
             (Some (JString t), Some (JString s), Some pl) \<Rightarrow>
               t \<in> set [''create'', ''update'', ''delete'']
           | _ \<Rightarrow> False)
      | _ \<Rightarrow> False)"

section \<open>Values to run the code on\<close>

text \<open>
  The user of the integration test, a decoder, and two databases that hold an empty
  table \<open>Users\<close>: one keyed by \<open>id\<close>, as the policy table of the repository's
  Terraform stack is, and one keyed by \<open>ID\<close>. \<open>down\<close> is a database whose next
  request fails.
\<close>

definition john :: User where
  "john = \<lparr>ID = ''1'', Name = ''John'', Email = ''john@example.com'', Policies = None\<rparr>"

definition no_decoder :: "Item \<Rightarrow> User \<times> error option" where
  "no_decoder item = (\<lparr>ID = [], Name = [], Email = [], Policies = None\<rparr>, Some (Err ''UnmarshalTypeError''))"

definition users_by :: "string \<Rightarrow> DynamoDB" where
  "users_by k = \<lparr>Tables = [''Users'' \<mapsto> \<lparr>KeyName = k, Items = Map.empty\<rparr>], Faults = []\<rparr>"

definition down :: DynamoDB where
  "down = \<lparr>Tables = [''Users'' \<mapsto> \<lparr>KeyName = ''id'', Items = Map.empty\<rparr>],
           Faults = [Some (Err ''RequestError: send request failed'')]\<rparr>"

text \<open>
  A table \<open>Users\<close> keyed by \<open>ID\<close> that holds an item under the key \<open>1\<close>, and what a
  table of a database holds under a key.
\<close>

definition users_holding_1 :: DynamoDB where
  "users_holding_1 =
     \<lparr>Tables = [''Users'' \<mapsto> \<lparr>KeyName = ''ID'',
                                  Items = [''1'' \<mapsto> [(''ID'', AV_S ''1''), (''name'', AV_S ''John'')]]\<rparr>],
      Faults = []\<rparr>"

definition stored :: "DynamoDB \<Rightarrow> string \<Rightarrow> string \<Rightarrow> Item option" where
  "stored db tableName k = (case Tables db tableName of None \<Rightarrow> None | Some t \<Rightarrow> Items t k)"

text \<open>
  For the EPM service: the policy of its unit test, an audit record, a database with a
  table for each (keyed by \<open>id\<close>, as the Terraform stack declares the policy table), and
  decoders.
\<close>

definition admin :: EPMPolicy where
  "admin = \<lparr>policy_ID = ''1'', policy_Name = ''Admin'', policy_Rules = ''some_rules''\<rparr>"

definition audit1 :: EPMAudit where
  "audit1 = \<lparr>audit_ID = ''a1'', audit_PolicyID = ''1'', audit_Timestamp = ''2024-01-01T00:00:00Z'',
              audit_Action = ''elevate'', audit_Status = ''ok''\<rparr>"

definition epm_db :: DynamoDB where
  "epm_db = \<lparr>Tables = [''EPMPolicies'' \<mapsto> \<lparr>KeyName = ''id'', Items = Map.empty\<rparr>,
                        ''EPMAudits'' \<mapsto> \<lparr>KeyName = ''id'', Items = Map.empty\<rparr>],
             Faults = []\<rparr>"

definition no_policy_decoder :: "Item \<Rightarrow> EPMPolicy \<times> error option" where
  "no_policy_decoder item =
     (\<lparr>policy_ID = [], policy_Name = [], policy_Rules = []\<rparr>, Some (Err ''UnmarshalTypeError''))"

definition no_audit_decoder :: "Item \<Rightarrow> EPMAudit \<times> error option" where
  "no_audit_decoder item =
     (\<lparr>audit_ID = [], audit_PolicyID = [], audit_Timestamp = [], audit_Action = [], audit_Status = []\<rparr>,
      Some (Err ''UnmarshalTypeError''))"

text \<open>
  The producer of the integration test, with a broker's address, and a producer without
  one; the same with an address for the EPM service. No message is too large for them.
\<close>

definition local_producer :: KafkaProducer where
  "local_producer = NewKafkaProducer [''localhost:9092''] (\<lambda>m. False) []"

definition no_broker :: KafkaProducer where
  "no_broker = NewKafkaProducer [] (\<lambda>m. False) []"

definition epm_producer :: KafkaProducer where
  "epm_producer = EPM_NewKafkaProducer [''localhost:9092''] (\<lambda>m. False) []"

section \<open>The write path of the user service\<close>

lemma WriteMessages_written: "written (snd (WriteMessages ctx m p)) = written p @ [m]"
  by (simp add: WriteMessages_def Let_def split: option.splits list.splits)

lemma PublishEvent_written:
  "written (snd (PublishEvent key v p)) = written p @ [\<lparr>Key = key, Value = v\<rparr>]"
  by (simp add: PublishEvent_def WriteMessages_def Let_def split: option.splits list.splits)

lemma PublishEvent_result:
  "fst (PublishEvent key v p) =
     (if Addr p = [] then Returns (Some nil_address)
      else if oversized p \<lparr>Key = key, Value = v\<rparr> then Returns (Some MessageTooLargeError)
      else Panics nil_dereference)"
  by (simp add: PublishEvent_def WriteMessages_def Let_def nil_address_def
      MessageTooLargeError_def)

lemma publishEvent_written:
  "written (snd (publishEvent eventType user p)) =
     written p @ [\<lparr>Key = eventType, Value = fst (json_Marshal user)\<rparr>]"
  by (simp add: publishEvent_def case_prod_beta PublishEvent_written split: result.splits)

lemma publishEvent_result:
  "fst (publishEvent eventType user p) =
     (if Addr p \<noteq> [] \<and> \<not> oversized p \<lparr>Key = eventType, Value = fst (json_Marshal user)\<rparr>
      then Panics nil_dereference else Returns ())"
  by (simp add: publishEvent_def case_prod_beta PublishEvent_result split: result.splits)

lemma down_create:
  "DynamoUserRepository_CreateUser john down =
     (Some (Err ''RequestError: send request failed''), down\<lparr>Faults := []\<rparr>)"
  by (simp add: DynamoUserRepository_CreateUser_def MarshalMap_def PutItemWithContext_def
      next_fault_def down_def)

lemma down_delete:
  "DynamoUserRepository_DeleteUser ''1'' down =
     (Some (Err ''RequestError: send request failed''), down\<lparr>Faults := []\<rparr>)"
  by (simp add: DynamoUserRepository_DeleteUser_def DeleteItemWithContext_def
      next_fault_def down_def)

lemma users_by_create:
  "DynamoUserRepository_CreateUser john (users_by ''id'') =
     (None, \<lparr>Tables = [''Users'' \<mapsto> \<lparr>KeyName = ''id'', Items = [''1'' \<mapsto> fst (MarshalMap john)]\<rparr>], Faults = []\<rparr>)"
  by (simp add: DynamoUserRepository_CreateUser_def MarshalMap_def PutItemWithContext_def
      next_fault_def users_by_def item_key_def john_def encodeString_def encodeSlice_def)

lemma users_by_create_ok: "fst (DynamoUserRepository_CreateUser john (users_by ''id'')) = None"
  by (simp add: users_by_create)

lemma users_by_delete_ok: "fst (DynamoUserRepository_DeleteUser ''missing'' (users_by ''ID'')) = None"
  by (simp add: DynamoUserRepository_DeleteUser_def DeleteItemWithContext_def
      next_fault_def users_by_def request_key_def)

lemma service_written:
  "fst (repo_CreateUser s user db) = None \<Longrightarrow>
     written (snd (snd (UserService_CreateUser s user (db, p)))) =
       written p @ [\<lparr>Key = ''create_user'', Value = fst (json_Marshal user)\<rparr>]"
  "fst (repo_UpdateUser s user db) = None \<Longrightarrow>
     written (snd (snd (UserService_UpdateUser s user (db, p)))) =
       written p @ [\<lparr>Key = ''update_user'', Value = fst (json_Marshal user)\<rparr>]"
  "fst (repo_DeleteUser s i db) = None \<Longrightarrow>
     written (snd (snd (UserService_DeleteUser s i (db, p)))) =
       written p @ [\<lparr>Key = ''delete_user'',
                      Value = fst (json_Marshal \<lparr>ID = i, Name = [], Email = [], Policies = None\<rparr>)\<rparr>]"
  by (simp_all add: UserService_CreateUser_def UserService_UpdateUser_def
      UserService_DeleteUser_def publishEvent_written case_prod_beta split: result.splits)

lemma service_result:
  "fst (UserService_CreateUser s user (db, p)) =
     (if fst (repo_CreateUser s user db) = None \<and> Addr p \<noteq> [] \<and>
         \<not> oversized p \<lparr>Key = ''create_user'', Value = fst (json_Marshal user)\<rparr>
      then Panics nil_dereference else Returns (fst (repo_CreateUser s user db)))"
  "fst (UserService_UpdateUser s user (db, p)) =
     (if fst (repo_UpdateUser s user db) = None \<and> Addr p \<noteq> [] \<and>
         \<not> oversized p \<lparr>Key = ''update_user'', Value = fst (json_Marshal user)\<rparr>
      then Panics nil_dereference else Returns (fst (repo_UpdateUser s user db)))"
  "fst (UserService_DeleteUser s i (db, p)) =
     (if fst (repo_DeleteUser s i db) = None \<and> Addr p \<noteq> [] \<and>
         \<not> oversized p \<lparr>Key = ''delete_user'',
              Value = fst (json_Marshal \<lparr>ID = i, Name = [], Email = [], Policies = None\<rparr>)\<rparr>
      then Panics nil_dereference else Returns (fst (repo_DeleteUser s i db)))"
  using publishEvent_result [of "''create_user''" user p]
    publishEvent_result [of "''update_user''" user p]
    publishEvent_result [of "''delete_user''" "\<lparr>ID = i, Name = [], Email = [], Policies = None\<rparr>" p]
  by (auto simp add: UserService_CreateUser_def UserService_UpdateUser_def
      UserService_DeleteUser_def case_prod_beta split: result.splits)

lemma service_store:
  "fst (snd (UserService_CreateUser s user (db, p))) = snd (repo_CreateUser s user db)"
  "fst (snd (UserService_UpdateUser s user (db, p))) = snd (repo_UpdateUser s user db)"
  "fst (snd (UserService_DeleteUser s i (db, p))) = snd (repo_DeleteUser s i db)"
  by (simp_all add: UserService_CreateUser_def UserService_UpdateUser_def
      UserService_DeleteUser_def case_prod_beta split: result.splits)

lemma repo_ok:
  "fst (repo_CreateUser (DynamoUserRepository um) john (users_by ''id'')) = None"
  "fst (repo_UpdateUser (DynamoUserRepository um) john (users_by ''id'')) = None"
  "fst (repo_DeleteUser (DynamoUserRepository um) ''missing'' (users_by ''ID'')) = None"
  by (simp_all add: DynamoUserRepository_def DynamoUserRepository_UpdateUser_def
      users_by_create_ok users_by_delete_ok)

lemma producers:
  "written local_producer = []" "Addr local_producer = [''localhost:9092'']"
  "\<not> oversized local_producer m"
  "written no_broker = []" "Addr no_broker = []"
  by (simp_all add: local_producer_def no_broker_def NewKafkaProducer_def)

lemma john_created:
  "written (snd (snd (UserService_CreateUser (DynamoUserRepository um) john
      (users_by ''id'', local_producer)))) =
   [\<lparr>Key = ''create_user'',
     Value = JObject [(''id'', JString ''1''), (''name'', JString ''John''),
                      (''email'', JString ''john@example.com''), (''policies'', JNull)]\<rparr>]"
  using service_written(1) [OF repo_ok(1), of um local_producer]
  by (simp add: producers json_Marshal_def john_def)

lemma john_updated:
  "written (snd (snd (UserService_UpdateUser (DynamoUserRepository um) john
      (users_by ''id'', local_producer)))) =
   [\<lparr>Key = ''update_user'',
     Value = JObject [(''id'', JString ''1''), (''name'', JString ''John''),
                      (''email'', JString ''john@example.com''), (''policies'', JNull)]\<rparr>]"
  using service_written(2) [OF repo_ok(2), of um local_producer]
  by (simp add: producers json_Marshal_def john_def)

lemma missing_deleted:
  "written (snd (snd (UserService_DeleteUser (DynamoUserRepository um) ''missing''
      (users_by ''ID'', local_producer)))) =
   [\<lparr>Key = ''delete_user'',
     Value = JObject [(''id'', JString ''missing''), (''name'', JString []),
                      (''email'', JString []), (''policies'', JNull)]\<rparr>]"
  using service_written(3) [OF repo_ok(3), of um local_producer]
  by (simp add: producers json_Marshal_def)

text \<open>
  Claim C1. Whatever implementation stands behind the repository interface: when the
  repository's call of \<open>CreateUser\<close>, \<open>UpdateUser\<close> or \<open>DeleteUser\<close> returns an error,
  the service returns that same error, and the producer is left exactly as it was. Every
  call of \<open>WriteMessages\<close> adds to \<open>written\<close>, so nothing was handed to the producer.
\<close>

theorem commit_failure_is_returned_and_nothing_is_published:
  "(repo_CreateUser s user db = (Some e, db') \<longrightarrow>
      UserService_CreateUser s user (db, p) = (Returns (Some e), (db', p))) \<and>
   (repo_UpdateUser s user db = (Some e, db') \<longrightarrow>
      UserService_UpdateUser s user (db, p) = (Returns (Some e), (db', p))) \<and>
   (repo_DeleteUser s i db = (Some e, db') \<longrightarrow>
      UserService_DeleteUser s i (db, p) = (Returns (Some e), (db', p)))"
  by (simp add: UserService_CreateUser_def UserService_UpdateUser_def UserService_DeleteUser_def)

text \<open>
  The three hypotheses hold for the DynamoDB repository on a database whose next request
  fails.
\<close>

theorem commit_failure_is_returned_and_nothing_is_published_witness:
  "repo_CreateUser (DynamoUserRepository no_decoder) john down =
     (Some (Err ''RequestError: send request failed''), down\<lparr>Faults := []\<rparr>) \<and>
   UserService_CreateUser (DynamoUserRepository no_decoder) john (down, local_producer) =
     (Returns (Some (Err ''RequestError: send request failed'')), (down\<lparr>Faults := []\<rparr>, local_producer)) \<and>
   repo_UpdateUser (DynamoUserRepository no_decoder) john down =
     (Some (Err ''RequestError: send request failed''), down\<lparr>Faults := []\<rparr>) \<and>
   UserService_UpdateUser (DynamoUserRepository no_decoder) john (down, local_producer) =
     (Returns (Some (Err ''RequestError: send request failed'')), (down\<lparr>Faults := []\<rparr>, local_producer)) \<and>
   repo_DeleteUser (DynamoUserRepository no_decoder) ''1'' down =
     (Some (Err ''RequestError: send request failed''), down\<lparr>Faults := []\<rparr>) \<and>
   UserService_DeleteUser (DynamoUserRepository no_decoder) ''1'' (down, local_producer) =
     (Returns (Some (Err ''RequestError: send request failed'')), (down\<lparr>Faults := []\<rparr>, local_producer)) \<and>
   written local_producer = []"
  using commit_failure_is_returned_and_nothing_is_published
    [of "DynamoUserRepository no_decoder" john down "Err ''RequestError: send request failed''"
        "down\<lparr>Faults := []\<rparr>" local_producer "''1''"]
  by (simp add: DynamoUserRepository_def DynamoUserRepository_UpdateUser_def down_create
      down_delete producers)

text \<open>
  Claim C2 fails on the code. \<open>PublishEvent\<close> hands a \<open>nil\<close> context to
  \<open>Writer.WriteMessages\<close>. Whatever implementation stands behind the repository
  interface: after a commit that succeeded, with a producer that has a broker's address
  and a message within the batch size, \<open>CreateUser\<close>, \<open>UpdateUser\<close> and \<open>DeleteUser\<close>
  panic and return nothing. In every other case they return what the repository's call
  returned: its error where the commit failed, and \<open>nil\<close> where the commit succeeded
  and the writer returned an error (no address, or a message too large).
\<close>

theorem committed_write_panics_where_a_broker_is_set:
  "fst (UserService_CreateUser s user (db, p)) =
     (if fst (repo_CreateUser s user db) = None \<and> Addr p \<noteq> [] \<and>
         \<not> oversized p \<lparr>Key = ''create_user'', Value = fst (json_Marshal user)\<rparr>
      then Panics nil_dereference else Returns (fst (repo_CreateUser s user db))) \<and>
   fst (UserService_UpdateUser s user (db, p)) =
     (if fst (repo_UpdateUser s user db) = None \<and> Addr p \<noteq> [] \<and>
         \<not> oversized p \<lparr>Key = ''update_user'', Value = fst (json_Marshal user)\<rparr>
      then Panics nil_dereference else Returns (fst (repo_UpdateUser s user db))) \<and>
   fst (UserService_DeleteUser s i (db, p)) =
     (if fst (repo_DeleteUser s i db) = None \<and> Addr p \<noteq> [] \<and>
         \<not> oversized p \<lparr>Key = ''delete_user'',
              Value = fst (json_Marshal \<lparr>ID = i, Name = [], Email = [], Policies = None\<rparr>)\<rparr>
      then Panics nil_dereference else Returns (fst (repo_DeleteUser s i db)))"
  by (simp only: service_result simp_thms)

text \<open>
  The user and the producer of the integration test, on a database that stores the
  user: the commit succeeds and the call panics. Without a broker's address the same
  call returns \<open>nil\<close>.
\<close>

theorem committed_write_panics_where_a_broker_is_set_witness:
  "fst (repo_CreateUser (DynamoUserRepository no_decoder) john (users_by ''id'')) = None \<and>
   Addr local_producer = [''localhost:9092''] \<and>
   fst (UserService_CreateUser (DynamoUserRepository no_decoder) john (users_by ''id'', local_producer)) =
     Panics nil_dereference \<and>
   fst (UserService_UpdateUser (DynamoUserRepository no_decoder) john (users_by ''id'', local_producer)) =
     Panics nil_dereference \<and>
   fst (UserService_DeleteUser (DynamoUserRepository no_decoder) ''missing'' (users_by ''ID'', local_producer)) =
     Panics nil_dereference \<and>
   fst (UserService_CreateUser (DynamoUserRepository no_decoder) john (users_by ''id'', no_broker)) =
     Returns None"
  using committed_write_panics_where_a_broker_is_set
    [of "DynamoUserRepository no_decoder" john "users_by ''id''" local_producer]
    committed_write_panics_where_a_broker_is_set
    [of "DynamoUserRepository no_decoder" john "users_by ''ID''" local_producer "''missing''"]
    committed_write_panics_where_a_broker_is_set
    [of "DynamoUserRepository no_decoder" john "users_by ''id''" no_broker]
  by (simp add: repo_ok producers)

section \<open>The event that is written\<close>

text \<open>
  Claim C3, as the code has it. After a successful commit the service hands one message
  to the producer, and its key is the name of the operation: \<open>create_user\<close>,
  \<open>update_user\<close> or \<open>delete_user\<close> (the unit test expects \<open>PublishEvent\<close> to be called
  with \<open>create_user\<close> as the key). The user's id is not the key; it is the member \<open>id\<close>
  of the message's value.
\<close>

theorem message_key_is_the_event_type:
  "(fst (repo_CreateUser s user db) = None \<longrightarrow>
      map Key (written (snd (snd (UserService_CreateUser s user (db, p))))) =
        map Key (written p) @ [''create_user''] \<and>
      map (json_member ''id'' \<circ> Value) (written (snd (snd (UserService_CreateUser s user (db, p))))) =
        map (json_member ''id'' \<circ> Value) (written p) @ [Some (JString (ID user))]) \<and>
   (fst (repo_UpdateUser s user db) = None \<longrightarrow>
      map Key (written (snd (snd (UserService_UpdateUser s user (db, p))))) =
        map Key (written p) @ [''update_user''] \<and>
      map (json_member ''id'' \<circ> Value) (written (snd (snd (UserService_UpdateUser s user (db, p))))) =
        map (json_member ''id'' \<circ> Value) (written p) @ [Some (JString (ID user))]) \<and>
   (fst (repo_DeleteUser s i db) = None \<longrightarrow>
      map Key (written (snd (snd (UserService_DeleteUser s i (db, p))))) =
        map Key (written p) @ [''delete_user''] \<and>
      map (json_member ''id'' \<circ> Value) (written (snd (snd (UserService_DeleteUser s i (db, p))))) =
        map (json_member ''id'' \<circ> Value) (written p) @ [Some (JString i)])"
  by (simp add: service_written json_member_def json_Marshal_def)

theorem message_key_is_the_event_type_witness:
  "fst (repo_CreateUser (DynamoUserRepository no_decoder) john (users_by ''id'')) = None \<and>
   map Key (written (snd (snd (UserService_CreateUser (DynamoUserRepository no_decoder) john
      (users_by ''id'', local_producer))))) = [''create_user''] \<and>
   fst (repo_UpdateUser (DynamoUserRepository no_decoder) john (users_by ''id'')) = None \<and>
   map Key (written (snd (snd (UserService_UpdateUser (DynamoUserRepository no_decoder) john
      (users_by ''id'', local_producer))))) = [''update_user''] \<and>
   fst (repo_DeleteUser (DynamoUserRepository no_decoder) ''missing'' (users_by ''ID'')) = None \<and>
   map Key (written (snd (snd (UserService_DeleteUser (DynamoUserRepository no_decoder) ''missing''
      (users_by ''ID'', local_producer))))) = [''delete_user''] \<and>
   map (json_member ''id'' \<circ> Value)
     (written (snd (snd (UserService_DeleteUser (DynamoUserRepository no_decoder) ''missing''
        (users_by ''ID'', local_producer))))) = [Some (JString ''missing'')]"
  using message_key_is_the_event_type
    [of "DynamoUserRepository no_decoder" john "users_by ''id''" "local_producer"]
    message_key_is_the_event_type
    [of "DynamoUserRepository no_decoder" john "users_by ''ID''" "local_producer" "''missing''"]
  by (simp add: repo_ok producers)

text \<open>
  Claim C3 as stated fails: creating the user with the id \<open>1\<close> writes a message whose key
  is \<open>create_user\<close>, not \<open>1\<close>.
\<close>

theorem message_key_is_not_the_subject_id:
  "map Key (written (snd (snd (UserService_CreateUser (DynamoUserRepository no_decoder) john
      (users_by ''id'', local_producer))))) = [''create_user''] \<and>
   map Key (written (snd (snd (UserService_CreateUser (DynamoUserRepository no_decoder) john
      (users_by ''id'', local_producer))))) \<noteq> [ID john]"
  by (simp add: john_created) (simp add: john_def)

text \<open>
  Claim C4, as the code has it. \<open>DeleteUser\<close> publishes the JSON of
  \<open>models.User{ID: id}\<close>. No field of \<open>User\<close> is tagged \<open>omitempty\<close>, so the value has
  all four members: the id, an empty name, an empty email and \<open>null\<close> policies.
\<close>

theorem delete_payload_is_the_user_with_only_the_id_set:
  "fst (repo_DeleteUser s i db) = None \<longrightarrow>
     map Value (written (snd (snd (UserService_DeleteUser s i (db, p))))) =
       map Value (written p) @
         [JObject [(''id'', JString i), (''name'', JString []), (''email'', JString []),
                   (''policies'', JNull)]]"
  by (simp add: service_written json_Marshal_def)

theorem delete_payload_is_the_user_with_only_the_id_set_witness:
  "fst (repo_DeleteUser (DynamoUserRepository no_decoder) ''missing'' (users_by ''ID'')) = None \<and>
   map Value (written (snd (snd (UserService_DeleteUser (DynamoUserRepository no_decoder) ''missing''
      (users_by ''ID'', local_producer))))) =
     [JObject [(''id'', JString ''missing''), (''name'', JString []), (''email'', JString []),
               (''policies'', JNull)]]"
  using delete_payload_is_the_user_with_only_the_id_set
    [of "DynamoUserRepository no_decoder" "''missing''" "users_by ''ID''" "local_producer"]
  by (simp add: repo_ok producers)

text \<open>
  Claim C4 as stated fails: deleting the id \<open>missing\<close> does not write the document
  whose only member is \<open>id\<close>.
\<close>

theorem delete_payload_has_more_than_the_id:
  "map Value (written (snd (snd (UserService_DeleteUser (DynamoUserRepository no_decoder) ''missing''
      (users_by ''ID'', local_producer))))) \<noteq> [JObject [(''id'', JString ''missing'')]]"
  by (simp add: missing_deleted)

text \<open>
  Claim C5, as the code has it. After a successful commit the message handed to the
  producer has the name of the operation (\<open>create_user\<close>, \<open>update_user\<close>,
  \<open>delete_user\<close>) as its key, and the JSON of the user itself as its value: for a
  deletion the user with only the id set, otherwise the user that was stored. There is
  no envelope around it.
\<close>

theorem event_is_the_type_as_key_and_the_user_as_value:
  "(fst (repo_CreateUser s user db) = None \<longrightarrow>
      written (snd (snd (UserService_CreateUser s user (db, p)))) =
        written p @ [\<lparr>Key = ''create_user'', Value = fst (json_Marshal user)\<rparr>]) \<and>
   (fst (repo_UpdateUser s user db) = None \<longrightarrow>
      written (snd (snd (UserService_UpdateUser s user (db, p)))) =
        written p @ [\<lparr>Key = ''update_user'', Value = fst (json_Marshal user)\<rparr>]) \<and>
   (fst (repo_DeleteUser s i db) = None \<longrightarrow>
      written (snd (snd (UserService_DeleteUser s i (db, p)))) =
        written p @ [\<lparr>Key = ''delete_user'',
                       Value = fst (json_Marshal \<lparr>ID = i, Name = [], Email = [], Policies = None\<rparr>)\<rparr>]) \<and>
   fst (json_Marshal user) =
     JObject [(''id'', JString (ID user)), (''name'', JString (Name user)),
              (''email'', JString (Email user)),
              (''policies'', (case Policies user of None \<Rightarrow> JNull | Some ps \<Rightarrow> JArray (map JString ps)))]"
  by (simp add: service_written json_Marshal_def)

theorem event_is_the_type_as_key_and_the_user_as_value_witness:
  "fst (repo_CreateUser (DynamoUserRepository no_decoder) john (users_by ''id'')) = None \<and>
   written (snd (snd (UserService_CreateUser (DynamoUserRepository no_decoder) john
      (users_by ''id'', local_producer)))) =
     [\<lparr>Key = ''create_user'',
       Value = JObject [(''id'', JString ''1''), (''name'', JString ''John''),
                        (''email'', JString ''john@example.com''), (''policies'', JNull)]\<rparr>] \<and>
   fst (repo_UpdateUser (DynamoUserRepository no_decoder) john (users_by ''id'')) = None \<and>
   written (snd (snd (UserService_UpdateUser (DynamoUserRepository no_decoder) john
      (users_by ''id'', local_producer)))) =
     [\<lparr>Key = ''update_user'',
       Value = JObject [(''id'', JString ''1''), (''name'', JString ''John''),
                        (''email'', JString ''john@example.com''), (''policies'', JNull)]\<rparr>] \<and>
   fst (repo_DeleteUser (DynamoUserRepository no_decoder) ''missing'' (users_by ''ID'')) = None \<and>
   written (snd (snd (UserService_DeleteUser (DynamoUserRepository no_decoder) ''missing''
      (users_by ''ID'', local_producer)))) =
     [\<lparr>Key = ''delete_user'',
       Value = JObject [(''id'', JString ''missing''), (''name'', JString []),
                        (''email'', JString []), (''policies'', JNull)]\<rparr>]"
  using event_is_the_type_as_key_and_the_user_as_value
    [of "DynamoUserRepository no_decoder" john "users_by ''id''" "local_producer"]
    event_is_the_type_as_key_and_the_user_as_value
    [of "DynamoUserRepository no_decoder" john "users_by ''ID''" "local_producer" "''missing''"]
  by (simp add: repo_ok john_created john_updated missing_deleted)

text \<open>
  Claim C5 as stated fails: the message written for a created user has a key outside
  \<open>create\<close>, \<open>update\<close>, \<open>delete\<close>, and its value is not of the specification's wire
  shape.
\<close>

theorem event_has_no_envelope_and_another_type:
  "Key (hd (written (snd (snd (UserService_CreateUser (DynamoUserRepository no_decoder) john
      (users_by ''id'', local_producer)))))) \<notin> set [''create'', ''update'', ''delete''] \<and>
   \<not> spec_event_wire_shape (Value (hd (written (snd (snd (UserService_CreateUser
      (DynamoUserRepository no_decoder) john (users_by ''id'', local_producer)))))))"
  by (simp add: john_created spec_event_wire_shape_def)

section \<open>The user repository on DynamoDB\<close>

text \<open>
  \<open>CreateUser\<close> stores the item that \<open>MarshalMap\<close> makes of the user, whose attributes
  are named by the \<open>json\<close> tags: the id is the attribute \<open>id\<close>. \<open>GetUser\<close> and
  \<open>DeleteUser\<close> ask for the key attribute \<open>ID\<close>. A table has one key attribute, so a
  table that accepts the item refuses the key, and a table that accepts the key refuses
  the item.
\<close>

lemma marshalled_key_is_not_ID:
  "item_key t (fst (MarshalMap user)) = Some k \<Longrightarrow> KeyName t \<noteq> ''ID''"
  by (auto simp add: item_key_def MarshalMap_def)

lemma create_ok_table:
  assumes "fst (DynamoUserRepository_CreateUser user db) = None"
  shows "\<exists>t. Tables (snd (DynamoUserRepository_CreateUser user db)) ''Users'' = Some t \<and>
             KeyName t \<noteq> ''ID'' \<and> (\<exists>k. Items t k = Some (fst (MarshalMap user)))"
proof -
  obtain item where item: "item = fst (MarshalMap user)" by simp
  have put: "DynamoUserRepository_CreateUser user db = PutItemWithContext ''Users'' item db"
    by (simp add: DynamoUserRepository_CreateUser_def MarshalMap_def item)
  from assms put have ok: "fst (PutItemWithContext ''Users'' item db) = None" by simp
  then obtain t k where t: "Tables (snd (next_fault db)) ''Users'' = Some t"
      and k: "item_key t item = Some k"
    by (auto simp add: PutItemWithContext_def case_prod_beta split: option.splits)
  let ?t' = "t\<lparr>Items := (Items t)(k \<mapsto> item)\<rparr>"
  from ok t k have a: "Tables (snd (PutItemWithContext ''Users'' item db)) ''Users'' = Some ?t'"
    by (auto simp add: PutItemWithContext_def case_prod_beta split: option.splits)
  have b: "KeyName ?t' \<noteq> ''ID''"
    using k marshalled_key_is_not_ID item by simp
  have c: "Items ?t' k = Some (fst (MarshalMap user))"
    by (simp add: item)
  from a b c show ?thesis unfolding put by blast
qed

lemma create_keeps_no_fault:
  "Faults db = [] \<Longrightarrow> Faults (snd (DynamoUserRepository_CreateUser user db)) = []"
  by (simp add: DynamoUserRepository_CreateUser_def MarshalMap_def PutItemWithContext_def
      next_fault_def split: option.splits)

lemma get_refused:
  assumes "Tables db ''Users'' = Some t" and "KeyName t \<noteq> ''ID''"
  shows "\<exists>e. fst (DynamoUserRepository_GetUser um i db) = (None, Some e)"
    and "Faults db = [] \<Longrightarrow>
           fst (DynamoUserRepository_GetUser um i db) = (None, Some ValidationException)"
  using assms
  by (auto simp add: DynamoUserRepository_GetUser_def GetItemWithContext_def next_fault_def
      request_key_def split: list.splits option.splits)

lemma delete_refused:
  assumes "Tables db ''Users'' = Some t" and "KeyName t \<noteq> ''ID''"
  shows "\<exists>e. fst (DynamoUserRepository_DeleteUser i db) = Some e"
    and "Tables (snd (DynamoUserRepository_DeleteUser i db)) = Tables db"
    and "Faults db = [] \<Longrightarrow>
           DynamoUserRepository_DeleteUser i db = (Some ValidationException, db)"
  using assms
  by (auto simp add: DynamoUserRepository_DeleteUser_def DeleteItemWithContext_def
      next_fault_def request_key_def split: list.splits option.splits)

lemma get_after_create_john:
  "fst (DynamoUserRepository_GetUser um ''1'' (snd (DynamoUserRepository_CreateUser john (users_by ''id'')))) =
     (None, Some ValidationException)"
  by (simp add: users_by_create DynamoUserRepository_GetUser_def GetItemWithContext_def
      next_fault_def request_key_def)

lemma create_john_ID:
  "fst (DynamoUserRepository_CreateUser john (users_by ''ID'')) = Some ValidationException"
  by (simp add: DynamoUserRepository_CreateUser_def MarshalMap_def PutItemWithContext_def
      next_fault_def users_by_def item_key_def)

lemma service_update_db:
  "fst (snd (UserService_UpdateUser (DynamoUserRepository um) user (db, p))) =
     snd (DynamoUserRepository_CreateUser user db)"
  by (simp add: service_store DynamoUserRepository_def DynamoUserRepository_UpdateUser_def)

lemma service_get_fst:
  "fst (UserService_GetUser (DynamoUserRepository um) i st) =
     fst (DynamoUserRepository_GetUser um i (fst st))"
  by (simp add: UserService_GetUser_def DynamoUserRepository_def case_prod_beta)

lemma delete_accepted:
  assumes "Tables db ''Users'' = Some t" and "KeyName t = ''ID''" and "Faults db = []" and "i \<noteq> []"
  shows "DynamoUserRepository_DeleteUser i db =
           (None, db\<lparr>Tables := (Tables db)(''Users'' \<mapsto> t\<lparr>Items := (Items t)(i := None)\<rparr>)\<rparr>)"
  using assms
  by (simp add: DynamoUserRepository_DeleteUser_def DeleteItemWithContext_def next_fault_def
      request_key_def)

lemma get_accepted:
  assumes "Tables db ''Users'' = Some t" and "KeyName t = ''ID''" and "Faults db = []" and "i \<noteq> []"
  shows "DynamoUserRepository_GetUser um i db =
           ((case Items t i of
               None \<Rightarrow> (None, Some (Err ''user not found''))
             | Some item \<Rightarrow> (Some (fst (um item)), snd (um item))), db)"
  using assms
  by (simp add: DynamoUserRepository_GetUser_def GetItemWithContext_def next_fault_def
      request_key_def case_prod_beta split: option.splits)

text \<open>
  Claim C6. The repository's \<open>UpdateUser\<close> is its \<open>CreateUser\<close>: the same request, with
  no check that the user exists. The second half of the claim fails on the code: after an
  \<open>UpdateUser\<close> of the service whose commit succeeded, on any database and whether the
  call then returned or panicked, \<open>GetUser\<close> of the same id returns an error and no
  user.
\<close>

theorem update_is_create_and_cannot_be_read_back:
  "DynamoUserRepository_UpdateUser user db = DynamoUserRepository_CreateUser user db \<and>
   (fst (DynamoUserRepository_UpdateUser user db) = None \<longrightarrow>
      (\<exists>e. fst (UserService_GetUser (DynamoUserRepository um) (ID user)
                (snd (UserService_UpdateUser (DynamoUserRepository um) user (db, p)))) =
            (None, Some e)))"
proof (intro conjI impI)
  show eq: "DynamoUserRepository_UpdateUser user db = DynamoUserRepository_CreateUser user db"
    by (simp add: DynamoUserRepository_UpdateUser_def)
  assume "fst (DynamoUserRepository_UpdateUser user db) = None"
  then have "fst (DynamoUserRepository_CreateUser user db) = None"
    by (simp add: eq)
  then obtain t where "Tables (snd (DynamoUserRepository_CreateUser user db)) ''Users'' = Some t"
      and "KeyName t \<noteq> ''ID''"
    using create_ok_table by blast
  then show "\<exists>e. fst (UserService_GetUser (DynamoUserRepository um) (ID user)
                (snd (UserService_UpdateUser (DynamoUserRepository um) user (db, p)))) =
            (None, Some e)"
    using get_refused(1) by (simp add: service_get_fst service_update_db)
qed

text \<open>
  On a table keyed by \<open>id\<close> the update is stored and the read is refused, whether the
  producer has a broker's address (the update panics after the commit) or not (it
  returns \<open>nil\<close>); on a table keyed by \<open>ID\<close> the update itself is refused.
\<close>

theorem update_is_create_and_cannot_be_read_back_witness:
  "fst (DynamoUserRepository_UpdateUser john (users_by ''id'')) = None \<and>
   fst (UserService_UpdateUser (DynamoUserRepository no_decoder) john
          (users_by ''id'', no_broker)) = Returns None \<and>
   fst (UserService_GetUser (DynamoUserRepository no_decoder) ''1''
          (snd (UserService_UpdateUser (DynamoUserRepository no_decoder) john
                  (users_by ''id'', no_broker)))) =
     (None, Some ValidationException) \<and>
   fst (UserService_UpdateUser (DynamoUserRepository no_decoder) john
          (users_by ''id'', local_producer)) = Panics nil_dereference \<and>
   fst (UserService_GetUser (DynamoUserRepository no_decoder) ''1''
          (snd (UserService_UpdateUser (DynamoUserRepository no_decoder) john
                  (users_by ''id'', local_producer)))) =
     (None, Some ValidationException) \<and>
   fst (UserService_UpdateUser (DynamoUserRepository no_decoder) john
          (users_by ''ID'', local_producer)) = Returns (Some ValidationException)"
proof -
  let ?R = "DynamoUserRepository no_decoder"
  have c: "fst (DynamoUserRepository_UpdateUser john (users_by ''id'')) = None"
    by (simp add: DynamoUserRepository_UpdateUser_def users_by_create_ok)
  have g: "fst (UserService_GetUser ?R ''1'' (snd (UserService_UpdateUser ?R john (users_by ''id'', p)))) =
      (None, Some ValidationException)" for p
    by (simp add: service_get_fst service_update_db get_after_create_john)
  have s1: "fst (UserService_UpdateUser ?R john (users_by ''id'', no_broker)) = Returns None"
    by (simp add: service_result repo_ok producers)
  have s2: "fst (UserService_UpdateUser ?R john (users_by ''id'', local_producer)) =
      Panics nil_dereference"
    by (simp add: service_result repo_ok producers)
  have s3: "fst (UserService_UpdateUser ?R john (users_by ''ID'', local_producer)) =
      Returns (Some ValidationException)"
    by (simp add: service_result DynamoUserRepository_def DynamoUserRepository_UpdateUser_def
        create_john_ID)
  show ?thesis
    using update_is_create_and_cannot_be_read_back [of john "users_by ''id''" no_decoder no_broker]
      c g [of no_broker] g [of local_producer] s1 s2 s3
    by (intro conjI) assumption+
qed

text \<open>
  Claim C7 fails on the code: after a \<open>CreateUser\<close> that succeeded, on any database and
  for any user, \<open>GetUser\<close> of the user's id returns an error and no user.
\<close>

theorem created_user_cannot_be_read_back:
  "fst (DynamoUserRepository_CreateUser user db) = None \<longrightarrow>
     (\<exists>e. fst (DynamoUserRepository_GetUser um (ID user)
               (snd (DynamoUserRepository_CreateUser user db))) = (None, Some e))"
  using create_ok_table get_refused(1) by blast

text \<open>
  The user of the integration test: on a table keyed by \<open>id\<close> it is stored and the read
  is refused; on a table keyed by \<open>ID\<close> it is not stored.
\<close>

theorem created_user_cannot_be_read_back_witness:
  "fst (DynamoUserRepository_CreateUser john (users_by ''id'')) = None \<and>
   fst (DynamoUserRepository_GetUser no_decoder ''1''
          (snd (DynamoUserRepository_CreateUser john (users_by ''id'')))) =
     (None, Some ValidationException) \<and>
   fst (DynamoUserRepository_CreateUser john (users_by ''ID'')) = Some ValidationException"
  using created_user_cannot_be_read_back [of john "users_by ''id''" no_decoder]
  by (simp add: users_by_create_ok get_after_create_john create_john_ID)

text \<open>
  Where the table \<open>Users\<close> is keyed by \<open>ID\<close>, the attribute \<open>DeleteUser\<close> and \<open>GetUser\<close>
  address, the database answers and the id is not empty, deleting is idempotent and the
  read reports that the user is not found. No \<open>CreateUser\<close> succeeds on such a table.
\<close>

lemma delete_twice_on_a_table_keyed_by_ID:
  assumes "Tables db ''Users'' = Some t" and "KeyName t = ''ID''" and "Faults db = []" and "i \<noteq> []"
  shows "fst (DynamoUserRepository_DeleteUser i db) = None \<and>
         fst (DynamoUserRepository_DeleteUser i (snd (DynamoUserRepository_DeleteUser i db))) = None \<and>
         snd (DynamoUserRepository_DeleteUser i (snd (DynamoUserRepository_DeleteUser i db))) =
           snd (DynamoUserRepository_DeleteUser i db) \<and>
         fst (DynamoUserRepository_GetUser um i
                (snd (DynamoUserRepository_DeleteUser i (snd (DynamoUserRepository_DeleteUser i db))))) =
           (None, Some (Err ''user not found'')) \<and>
         stored (snd (DynamoUserRepository_DeleteUser i db)) ''Users'' i = None \<and>
         (Items t i = None \<longrightarrow> snd (DynamoUserRepository_DeleteUser i db) = db)"
proof -
  let ?t1 = "t\<lparr>Items := (Items t)(i := None)\<rparr>"
  let ?db1 = "db\<lparr>Tables := (Tables db)(''Users'' \<mapsto> ?t1)\<rparr>"
  have d1: "DynamoUserRepository_DeleteUser i db = (None, ?db1)"
    using assms by (rule delete_accepted)
  have t1: "Tables ?db1 ''Users'' = Some ?t1" "KeyName ?t1 = ''ID''" "Faults ?db1 = []"
    using assms by simp_all
  have d2: "DynamoUserRepository_DeleteUser i ?db1 = (None, ?db1)"
    using delete_accepted [OF t1 assms(4)] by simp
  have g: "DynamoUserRepository_GetUser um i ?db1 = ((None, Some (Err ''user not found'')), ?db1)"
    using get_accepted [OF t1 assms(4), of um] by simp
  have noop: "Items t i = None \<Longrightarrow> ?db1 = db"
    using assms(1) by (simp add: fun_upd_idem)
  show ?thesis
    using assms(1) noop by (simp add: d1 d2 g stored_def)
qed

lemma create_refused_on_a_table_keyed_by_ID:
  assumes "Tables db ''Users'' = Some t" and "KeyName t = ''ID''"
  shows "\<exists>e. fst (DynamoUserRepository_CreateUser user db) = Some e"
  using assms
  by (auto simp add: DynamoUserRepository_CreateUser_def MarshalMap_def PutItemWithContext_def
      next_fault_def item_key_def split: list.splits option.splits)

text \<open>
  Claim C8 fails on the code. After a \<open>CreateUser\<close> that succeeded, on any database and
  for any user and id: \<open>DeleteUser\<close> returns an error and changes no table, so the
  stored user stays; and where the database answers (no fault pending), the first and
  the second \<open>DeleteUser\<close> are refused with a \<open>ValidationException\<close>, and the
  \<open>GetUser\<close> that follows returns that error too, not \<open>user not found\<close>.
\<close>

theorem created_user_cannot_be_deleted:
  "fst (DynamoUserRepository_CreateUser user db) = None \<longrightarrow>
     (\<exists>e. fst (DynamoUserRepository_DeleteUser i (snd (DynamoUserRepository_CreateUser user db))) =
            Some e) \<and>
     Tables (snd (DynamoUserRepository_DeleteUser i (snd (DynamoUserRepository_CreateUser user db)))) =
       Tables (snd (DynamoUserRepository_CreateUser user db)) \<and>
     (\<exists>k. stored (snd (DynamoUserRepository_DeleteUser i (snd (DynamoUserRepository_CreateUser user db))))
             ''Users'' k = Some (fst (MarshalMap user))) \<and>
     (Faults db = [] \<longrightarrow>
        fst (DynamoUserRepository_DeleteUser i (snd (DynamoUserRepository_CreateUser user db))) =
          Some ValidationException \<and>
        fst (DynamoUserRepository_DeleteUser i
               (snd (DynamoUserRepository_DeleteUser i (snd (DynamoUserRepository_CreateUser user db))))) =
          Some ValidationException \<and>
        fst (DynamoUserRepository_GetUser um i
               (snd (DynamoUserRepository_DeleteUser i
                       (snd (DynamoUserRepository_DeleteUser i
                               (snd (DynamoUserRepository_CreateUser user db))))))) =
          (None, Some ValidationException))"
proof (intro impI)
  let ?db1 = "snd (DynamoUserRepository_CreateUser user db)"
  assume "fst (DynamoUserRepository_CreateUser user db) = None"
  then obtain t k where t: "Tables ?db1 ''Users'' = Some t" and key: "KeyName t \<noteq> ''ID''"
      and k: "Items t k = Some (fst (MarshalMap user))"
    using create_ok_table by blast
  have refused: "\<exists>e. fst (DynamoUserRepository_DeleteUser i ?db1) = Some e"
    using delete_refused(1) [OF t key] .
  have same: "Tables (snd (DynamoUserRepository_DeleteUser i ?db1)) = Tables ?db1"
    using delete_refused(2) [OF t key] .
  have there: "stored (snd (DynamoUserRepository_DeleteUser i ?db1)) ''Users'' k =
      Some (fst (MarshalMap user))"
    by (simp add: stored_def same t k)
  have answers: "fst (DynamoUserRepository_DeleteUser i ?db1) = Some ValidationException \<and>
      fst (DynamoUserRepository_DeleteUser i (snd (DynamoUserRepository_DeleteUser i ?db1))) =
        Some ValidationException \<and>
      fst (DynamoUserRepository_GetUser um i
             (snd (DynamoUserRepository_DeleteUser i (snd (DynamoUserRepository_DeleteUser i ?db1))))) =
        (None, Some ValidationException)"
    if "Faults db = []"
  proof -
    have f: "Faults ?db1 = []" using that by (rule create_keeps_no_fault)
    have d: "DynamoUserRepository_DeleteUser i ?db1 = (Some ValidationException, ?db1)"
      using delete_refused(3) [OF t key f] .
    have g: "fst (DynamoUserRepository_GetUser um i ?db1) = (None, Some ValidationException)"
      using get_refused(2) [OF t key f] .
    show ?thesis by (simp add: d g)
  qed
  show "(\<exists>e. fst (DynamoUserRepository_DeleteUser i ?db1) = Some e) \<and>
     Tables (snd (DynamoUserRepository_DeleteUser i ?db1)) = Tables ?db1 \<and>
     (\<exists>k. stored (snd (DynamoUserRepository_DeleteUser i ?db1)) ''Users'' k =
             Some (fst (MarshalMap user))) \<and>
     (Faults db = [] \<longrightarrow>
        fst (DynamoUserRepository_DeleteUser i ?db1) = Some ValidationException \<and>
        fst (DynamoUserRepository_DeleteUser i (snd (DynamoUserRepository_DeleteUser i ?db1))) =
          Some ValidationException \<and>
        fst (DynamoUserRepository_GetUser um i
               (snd (DynamoUserRepository_DeleteUser i (snd (DynamoUserRepository_DeleteUser i ?db1))))) =
          (None, Some ValidationException))"
    using refused same there answers by blast
qed

text \<open>
  The user of the integration test, stored in a table keyed by \<open>id\<close>: both deletions
  and the read are refused, and the user is still stored under \<open>1\<close>.
\<close>

theorem created_user_cannot_be_deleted_witness:
  "fst (DynamoUserRepository_CreateUser john (users_by ''id'')) = None \<and>
   Faults (users_by ''id'') = [] \<and>
   fst (DynamoUserRepository_DeleteUser ''1'' (snd (DynamoUserRepository_CreateUser john (users_by ''id'')))) =
     Some ValidationException \<and>
   fst (DynamoUserRepository_DeleteUser ''1''
          (snd (DynamoUserRepository_DeleteUser ''1''
                  (snd (DynamoUserRepository_CreateUser john (users_by ''id'')))))) =
     Some ValidationException \<and>
   fst (DynamoUserRepository_GetUser no_decoder ''1''
          (snd (DynamoUserRepository_DeleteUser ''1''
                  (snd (DynamoUserRepository_DeleteUser ''1''
                          (snd (DynamoUserRepository_CreateUser john (users_by ''id'')))))))) =
     (None, Some ValidationException) \<and>
   stored (snd (DynamoUserRepository_DeleteUser ''1''
                  (snd (DynamoUserRepository_CreateUser john (users_by ''id'')))))
     ''Users'' ''1'' = Some (fst (MarshalMap john)) \<and>
   ValidationException \<noteq> Err ''user not found''"
proof -
  let ?db1 = "snd (DynamoUserRepository_CreateUser john (users_by ''id''))"
  have c: "fst (DynamoUserRepository_CreateUser john (users_by ''id'')) = None"
    by (rule users_by_create_ok)
  have f: "Faults (users_by ''id'') = []"
    by (simp add: users_by_def)
  note th = created_user_cannot_be_deleted [of john "users_by ''id''" "''1''" no_decoder]
  have same: "Tables (snd (DynamoUserRepository_DeleteUser ''1'' ?db1)) = Tables ?db1"
    using th c by blast
  have t1: "Tables ?db1 ''Users'' =
      Some \<lparr>KeyName = ''id'', Items = [''1'' \<mapsto> fst (MarshalMap john)]\<rparr>"
    by (simp add: users_by_create)
  have there: "stored (snd (DynamoUserRepository_DeleteUser ''1'' ?db1)) ''Users'' ''1'' =
      Some (fst (MarshalMap john))"
    unfolding stored_def same t1 by simp
  have ne: "ValidationException \<noteq> Err ''user not found''"
    by (simp add: ValidationException_def)
  show ?thesis
    using th c f there ne by blast
qed

section \<open>Reading\<close>

text \<open>
  Claim C9. Whatever implementation stands behind the repository interface, the
  service's \<open>GetUser\<close> returns what the repository's \<open>GetUser\<close> returns, leaves the
  repository's state as that call left it and leaves the producer as it was. The DynamoDB
  repository's \<open>GetUser\<close> changes no table; it returns the fault of a request that
  failed, and on a table that accepts the key the error \<open>user not found\<close> where the
  table holds nothing under the id, the decoded item otherwise.
\<close>

theorem GetUser_only_reads:
  "UserService_GetUser s i (db, p) = (fst (repo_GetUser s i db), (snd (repo_GetUser s i db), p)) \<and>
   Tables (snd (DynamoUserRepository_GetUser um i d)) = Tables d \<and>
   (Faults d = Some e # fs \<longrightarrow>
      fst (DynamoUserRepository_GetUser um i d) = (None, Some e)) \<and>
   (Faults d = [] \<and> Tables d ''Users'' = Some t \<and> KeyName t = ''ID'' \<and> i \<noteq> [] \<longrightarrow>
      fst (DynamoUserRepository_GetUser um i d) =
        (case Items t i of
           None \<Rightarrow> (None, Some (Err ''user not found''))
         | Some item \<Rightarrow> (Some (fst (um item)), snd (um item))))"
proof (intro conjI impI)
  show "UserService_GetUser s i (db, p) =
      (fst (repo_GetUser s i db), (snd (repo_GetUser s i db), p))"
    by (simp add: UserService_GetUser_def case_prod_beta)
next
  show "Tables (snd (DynamoUserRepository_GetUser um i d)) = Tables d"
    by (simp add: DynamoUserRepository_GetUser_def GetItemWithContext_def next_fault_def
        case_prod_beta split: list.splits option.splits)
next
  assume "Faults d = Some e # fs"
  then show "fst (DynamoUserRepository_GetUser um i d) = (None, Some e)"
    by (simp add: DynamoUserRepository_GetUser_def GetItemWithContext_def next_fault_def)
next
  assume "Faults d = [] \<and> Tables d ''Users'' = Some t \<and> KeyName t = ''ID'' \<and> i \<noteq> []"
  then show "fst (DynamoUserRepository_GetUser um i d) =
        (case Items t i of
           None \<Rightarrow> (None, Some (Err ''user not found''))
         | Some item \<Rightarrow> (Some (fst (um item)), snd (um item)))"
    by (simp add: get_accepted)
qed

text \<open>
  A read of a stored item, a read of an absent one, and a read that the database fails.
\<close>

theorem GetUser_only_reads_witness:
  "UserService_GetUser (DynamoUserRepository no_decoder) ''1'' (users_holding_1, local_producer) =
     ((Some \<lparr>ID = [], Name = [], Email = [], Policies = None\<rparr>, Some (Err ''UnmarshalTypeError'')),
      (users_holding_1, local_producer)) \<and>
   Faults down = [Some (Err ''RequestError: send request failed'')] \<and>
   fst (DynamoUserRepository_GetUser no_decoder ''1'' down) =
     (None, Some (Err ''RequestError: send request failed'')) \<and>
   Tables (snd (DynamoUserRepository_GetUser no_decoder ''1'' down)) = Tables down \<and>
   fst (DynamoUserRepository_GetUser no_decoder ''2'' users_holding_1) =
     (None, Some (Err ''user not found''))"
proof -
  let ?t = "\<lparr>KeyName = ''ID'', Items = [''1'' \<mapsto> [(''ID'', AV_S ''1''), (''name'', AV_S ''John'')]]\<rparr>"
  have h: "Faults users_holding_1 = [] \<and> Tables users_holding_1 ''Users'' = Some ?t \<and>
      KeyName ?t = ''ID''"
    by (simp add: users_holding_1_def)
  have f: "Faults down = [Some (Err ''RequestError: send request failed'')]"
    by (simp add: down_def)
  let ?R = "DynamoUserRepository no_decoder"
  let ?e = "Err ''RequestError: send request failed''"
  note a = GetUser_only_reads [where s = ?R and db = users_holding_1 and p = local_producer
      and i = "''1''" and um = no_decoder and d = users_holding_1 and t = ?t and e = ?e and fs = "[]"]
  note b = GetUser_only_reads [where s = ?R and db = users_holding_1 and p = local_producer
      and i = "''2''" and um = no_decoder and d = users_holding_1 and t = ?t and e = ?e and fs = "[]"]
  note c = GetUser_only_reads [where s = ?R and db = users_holding_1 and p = local_producer
      and i = "''1''" and um = no_decoder and d = down and t = ?t and e = ?e and fs = "[]"]
  have g1: "fst (DynamoUserRepository_GetUser no_decoder ''1'' users_holding_1) =
      (Some \<lparr>ID = [], Name = [], Email = [], Policies = None\<rparr>, Some (Err ''UnmarshalTypeError''))"
    using a h by (simp add: no_decoder_def)
  have g1': "snd (DynamoUserRepository_GetUser no_decoder ''1'' users_holding_1) = users_holding_1"
    using h by (simp add: get_accepted)
  have g2: "fst (DynamoUserRepository_GetUser no_decoder ''2'' users_holding_1) =
      (None, Some (Err ''user not found''))"
    using b h by simp
  have g3: "fst (DynamoUserRepository_GetUser no_decoder ''1'' down) = (None, Some ?e)"
    using c f by simp
  have g4: "Tables (snd (DynamoUserRepository_GetUser no_decoder ''1'' down)) = Tables down"
    using c by simp
  have g5: "UserService_GetUser ?R ''1'' (users_holding_1, local_producer) =
     ((Some \<lparr>ID = [], Name = [], Email = [], Policies = None\<rparr>, Some (Err ''UnmarshalTypeError'')),
      (users_holding_1, local_producer))"
    using a g1 g1' by (simp add: DynamoUserRepository_def)
  show ?thesis
    using f g2 g3 g4 g5 by simp
qed

section \<open>The EPM service\<close>

lemma EPM_publishEvent_written:
  "written (snd (EPMService_publishEvent eventType policy p)) =
     written p @ [\<lparr>Key = eventType, Value = fst (json_Marshal_policy policy)\<rparr>]"
  by (simp add: EPMService_publishEvent_def case_prod_beta PublishEvent_written
      split: result.splits option.splits)

lemma SaveAudit_stores:
  assumes "fst (DynamoDBRepo_SaveAudit tableName audit d) = None"
  shows "\<exists>k. stored (snd (DynamoDBRepo_SaveAudit tableName audit d)) tableName k =
           Some (fst (MarshalMap_audit audit))"
  using assms
  by (auto simp add: DynamoDBRepo_SaveAudit_def PutItemWithContext_def MarshalMap_audit_def
      stored_def case_prod_beta split: option.splits)

lemma audit1_saved:
  "DynamoDBRepo_SaveAudit ''EPMAudits'' audit1 epm_db =
     (None, epm_db\<lparr>Tables := (Tables epm_db)(''EPMAudits'' \<mapsto>
        \<lparr>KeyName = ''id'', Items = [''a1'' \<mapsto> fst (MarshalMap_audit audit1)]\<rparr>)\<rparr>)"
  by (simp add: DynamoDBRepo_SaveAudit_def PutItemWithContext_def MarshalMap_audit_def
      next_fault_def epm_db_def item_key_def audit1_def encodeString_def)

lemma admin_saved:
  "fst (DynamoDBRepo_SavePolicy ''EPMPolicies'' admin epm_db) = None"
  by (simp add: DynamoDBRepo_SavePolicy_def PutItemWithContext_def MarshalMap_policy_def
      next_fault_def epm_db_def item_key_def admin_def encodeString_def)

text \<open>
  Claim C10. Whatever implementation stands behind the repository interface,
  \<open>LogAudit\<close> returns what the repository's \<open>SaveAudit\<close> returns, leaves the
  repository's state as that call left it and leaves the producer as it was, whether the
  commit succeeded or not; with the DynamoDB repository a commit that succeeded has put
  the audit record's item in the table. \<open>CreatePolicy\<close>, after a commit that
  succeeded, has handed one message with the key \<open>create_policy\<close> to the producer.
\<close>

theorem LogAudit_commits_and_never_publishes:
  "EPMService_LogAudit s tableName audit (db, p) =
     (fst (repo_SaveAudit s tableName audit db), (snd (repo_SaveAudit s tableName audit db), p)) \<and>
   (fst (DynamoDBRepo_SaveAudit tableName audit d) = None \<longrightarrow>
      (\<exists>k. stored (fst (snd (EPMService_LogAudit (DynamoDBRepo dp da) tableName audit (d, p))))
              tableName k = Some (fst (MarshalMap_audit audit)))) \<and>
   (fst (repo_SavePolicy s tableName policy db) = None \<longrightarrow>
      written (snd (snd (EPMService_CreatePolicy s tableName policy (db, p)))) =
        written p @ [\<lparr>Key = ''create_policy'', Value = fst (json_Marshal_policy policy)\<rparr>])"
proof (intro conjI impI)
  show "EPMService_LogAudit s tableName audit (db, p) =
     (fst (repo_SaveAudit s tableName audit db), (snd (repo_SaveAudit s tableName audit db), p))"
    by (simp add: EPMService_LogAudit_def case_prod_beta)
next
  assume "fst (DynamoDBRepo_SaveAudit tableName audit d) = None"
  then show "\<exists>k. stored (fst (snd (EPMService_LogAudit (DynamoDBRepo dp da) tableName audit (d, p))))
              tableName k = Some (fst (MarshalMap_audit audit))"
    using SaveAudit_stores by (simp add: EPMService_LogAudit_def DynamoDBRepo_def case_prod_beta)
next
  assume "fst (repo_SavePolicy s tableName policy db) = None"
  then show "written (snd (snd (EPMService_CreatePolicy s tableName policy (db, p)))) =
        written p @ [\<lparr>Key = ''create_policy'', Value = fst (json_Marshal_policy policy)\<rparr>]"
    by (simp add: EPMService_CreatePolicy_def EPM_publishEvent_written case_prod_beta
        split: result.splits)
qed

text \<open>
  An audit record and a policy saved in a database that answers.
\<close>

theorem LogAudit_commits_and_never_publishes_witness:
  "EPMService_LogAudit (DynamoDBRepo no_policy_decoder no_audit_decoder) ''EPMAudits'' audit1
     (epm_db, epm_producer) =
     (None,
      (epm_db\<lparr>Tables := (Tables epm_db)(''EPMAudits'' \<mapsto>
         \<lparr>KeyName = ''id'', Items = [''a1'' \<mapsto> fst (MarshalMap_audit audit1)]\<rparr>)\<rparr>,
       epm_producer)) \<and>
   written (epm_producer) = [] \<and>
   fst (DynamoDBRepo_SaveAudit ''EPMAudits'' audit1 epm_db) = None \<and>
   stored (fst (snd (EPMService_LogAudit (DynamoDBRepo no_policy_decoder no_audit_decoder)
                       ''EPMAudits'' audit1 (epm_db, epm_producer))))
     ''EPMAudits'' ''a1'' = Some (fst (MarshalMap_audit audit1)) \<and>
   fst (repo_SavePolicy (DynamoDBRepo no_policy_decoder no_audit_decoder) ''EPMPolicies'' admin epm_db) = None \<and>
   written (snd (snd (EPMService_CreatePolicy (DynamoDBRepo no_policy_decoder no_audit_decoder)
                        ''EPMPolicies'' admin (epm_db, epm_producer)))) =
     [\<lparr>Key = ''create_policy'',
       Value = JObject [(''id'', JString ''1''), (''name'', JString ''Admin''),
                        (''rules'', JString ''some_rules'')]\<rparr>]"
proof -
  let ?R = "DynamoDBRepo no_policy_decoder no_audit_decoder"
  let ?p = "epm_producer"
  have r1: "repo_SaveAudit ?R = DynamoDBRepo_SaveAudit" and r2: "repo_SavePolicy ?R = DynamoDBRepo_SavePolicy"
    by (simp_all add: DynamoDBRepo_def)
  note a = LogAudit_commits_and_never_publishes [where s = ?R and tableName = "''EPMAudits''"
      and audit = audit1 and db = epm_db and p = ?p and d = epm_db and dp = no_policy_decoder
      and da = no_audit_decoder and policy = admin]
  note b = LogAudit_commits_and_never_publishes [where s = ?R and tableName = "''EPMPolicies''"
      and audit = audit1 and db = epm_db and p = ?p and d = epm_db and dp = no_policy_decoder
      and da = no_audit_decoder and policy = admin]
  have c1: "EPMService_LogAudit ?R ''EPMAudits'' audit1 (epm_db, ?p) =
     (None,
      (epm_db\<lparr>Tables := (Tables epm_db)(''EPMAudits'' \<mapsto>
         \<lparr>KeyName = ''id'', Items = [''a1'' \<mapsto> fst (MarshalMap_audit audit1)]\<rparr>)\<rparr>, ?p))"
    using a by (simp add: r1 audit1_saved)
  have c2: "written ?p = []" by (simp add: epm_producer_def EPM_NewKafkaProducer_def)
  have c3: "fst (DynamoDBRepo_SaveAudit ''EPMAudits'' audit1 epm_db) = None"
    by (simp add: audit1_saved)
  have c4: "stored (fst (snd (EPMService_LogAudit ?R ''EPMAudits'' audit1 (epm_db, ?p))))
     ''EPMAudits'' ''a1'' = Some (fst (MarshalMap_audit audit1))"
    by (simp add: c1 stored_def)
  have c5: "fst (repo_SavePolicy ?R ''EPMPolicies'' admin epm_db) = None"
    by (simp add: r2 admin_saved)
  have c6: "written (snd (snd (EPMService_CreatePolicy ?R ''EPMPolicies'' admin (epm_db, ?p)))) =
     [\<lparr>Key = ''create_policy'',
       Value = JObject [(''id'', JString ''1''), (''name'', JString ''Admin''),
                        (''rules'', JString ''some_rules'')]\<rparr>]"
    using b c5 by (simp add: c2 json_Marshal_policy_def admin_def)
  show ?thesis
    using c1 c2 c3 c4 c5 c6 by (intro conjI) assumption+
qed

end
